theory Spec2Isabelle
  imports Complex_Main
begin

section \<open>The adaptive signal engine of \<open>app/app.py\<close>\<close>

text \<open>
  The script \<open>ci_build.py\<close> writes the Streamlit application \<open>app/app.py\<close>.
  This theory embeds the part of that application which selects the indicator windows,
  computes the indicator columns and classifies their latest values.

  A Python float is modelled as a real number, and a float that is not a finite number
  (NaN, or an infinity produced by a division by zero) as \<open>None\<close>; a pandas Series of
  floats is a \<open>real option list\<close>. An ordering comparison with NaN is false in Python.
  The real numbers follow the float computation up to rounding as long as no intermediate
  result leaves the range of a float; the statement that the computed columns have a
  value at every position is therefore made for closes in a range that keeps every sum,
  quotient and square inside it.
\<close>

type_synonym pyfloat = "real option"
type_synonym series = "pyfloat list"

definition flt :: "pyfloat \<Rightarrow> real \<Rightarrow> bool" where
  \<comment> \<open>\<open>x < c\<close> for a float \<open>x\<close> and a literal \<open>c\<close>\<close>
  "flt x c = (case x of None \<Rightarrow> False | Some v \<Rightarrow> v < c)"

definition fgt :: "pyfloat \<Rightarrow> pyfloat \<Rightarrow> bool" where
  \<comment> \<open>\<open>x > y\<close> for two floats\<close>
  "fgt x y = (case x of None \<Rightarrow> False
              | Some v \<Rightarrow> (case y of None \<Rightarrow> False | Some u \<Rightarrow> v > u))"

subsection \<open>Adaptive indicator windows (lines 61 to 69)\<close>

datatype mode = Production | ReducedHistory | Demo

fun mode_label :: "mode \<Rightarrow> string" where
  "mode_label Production = ''Production''"
| "mode_label ReducedHistory = ''Reduced History''"
| "mode_label Demo = ''Demo''"

record window_config =
  sma_short :: nat
  sma_long :: nat
  ema_win :: nat
  rsi_win :: nat
  vol_win :: nat
  wmode :: mode

definition select_windows :: "int \<Rightarrow> window_config" where
  "select_windows data_len =
     (if data_len \<ge> 100 then
        \<lparr>sma_short = 20, sma_long = 50, ema_win = 20, rsi_win = 14, vol_win = 20,
         wmode = Production\<rparr>
      else if data_len \<ge> 60 then
        \<lparr>sma_short = 14, sma_long = 30, ema_win = 14, rsi_win = 10, vol_win = 14,
         wmode = ReducedHistory\<rparr>
      else
        \<lparr>sma_short = 3, sma_long = 5, ema_win = 3, rsi_win = 3, vol_win = 3,
         wmode = Demo\<rparr>)"

definition windows_of :: "window_config \<Rightarrow> nat list" where
  "windows_of cfg = [sma_short cfg, sma_long cfg, ema_win cfg, rsi_win cfg, vol_win cfg]"

subsection \<open>Classification of the latest values (lines 83 to 89, 170, 171 and 183)\<close>

datatype regime = Low | Medium | High

fun regime_label :: "regime \<Rightarrow> string" where
  "regime_label Low = ''Low''"
| "regime_label Medium = ''Medium''"
| "regime_label High = ''High''"

definition vol_regime :: "pyfloat \<Rightarrow> regime" where
  "vol_regime latest_vol =
     (if flt latest_vol 0.01 then Low
      else if flt latest_vol 0.025 then Medium
      else High)"

datatype bias = Bullish | Bearish

fun bias_label :: "bias \<Rightarrow> string" where
  "bias_label Bullish = ''Bullish''"
| "bias_label Bearish = ''Bearish''"

definition trend_bias :: "pyfloat \<Rightarrow> pyfloat \<Rightarrow> bias" where
  "trend_bias ema_last sma_short_last =
     (if fgt ema_last sma_short_last then Bullish else Bearish)"

text \<open>
  The narrative picks one of three phrases from the latest RSI value; the three cases
  are named after the phrases.
\<close>

datatype momentum_state = Overbought | Oversold | Neutral

fun momentum_phrase :: "momentum_state \<Rightarrow> string" where
  "momentum_phrase Overbought = ''overbought conditions''"
| "momentum_phrase Oversold = ''oversold conditions''"
| "momentum_phrase Neutral = ''balanced participation''"

definition momentum_of :: "pyfloat \<Rightarrow> momentum_state" where
  "momentum_of rsi_val =
     (if fgt rsi_val (Some 70) then Overbought
      else if flt rsi_val 30 then Oversold
      else Neutral)"

subsection \<open>The pandas and ta operations the application calls\<close>

text \<open>
  The application computes its columns with library calls. The definitions of this
  subsection render those calls on a column of finite floats (the \<open>Close\<close> column of a
  well-formed price file), after the behaviour of the libraries:
  \<^item> \<open>Series.rolling(w, min_periods=m)\<close>: the window ending at position \<open>i\<close> holds the
    positions \<open>max 0 (i + 1 - w)\<close> to \<open>i\<close>; NaN and infinite entries are not observations;
    \<open>mean\<close> has a value when there are at least \<open>m\<close> observations and at least one;
    \<open>std\<close> is the sample standard deviation (one degree of freedom removed) and has a
    value when there are at least \<open>m\<close> observations and more than one;
  \<^item> \<open>Series.ewm(alpha=a, adjust=False, min_periods=0).mean()\<close>: \<open>y\<^sub>0 = x\<^sub>0\<close> and
    \<open>y\<^sub>t = (1 - a) * y\<^sub>t\<^sub>-\<^sub>1 + a * x\<^sub>t\<close>; a span \<open>s\<close> stands for \<open>a = 2 / (s + 1)\<close>;
  \<^item> \<open>Series.pct_change()\<close>: \<open>x\<^sub>t / x\<^sub>t\<^sub>-\<^sub>1 - 1\<close>, NaN at position 0;
  \<^item> \<open>Series.diff(1)\<close>: \<open>x\<^sub>t - x\<^sub>t\<^sub>-\<^sub>1\<close>, NaN at position 0;
  \<^item> \<open>Series.iloc[-1]\<close>: the last entry, \<open>IndexError\<close> on an empty Series;
  \<^item> \<open>ta.trend.sma_indicator(close, window, fillna=True)\<close>: the rolling mean with
    \<open>min_periods = 0\<close>;
  \<^item> \<open>ta.trend.ema_indicator(close, window, fillna=True)\<close>: the exponentially weighted
    mean of span \<open>window\<close>;
  \<^item> \<open>ta.momentum.rsi(close, window, fillna=True)\<close>: with \<open>up\<close> and \<open>down\<close> the positive
    and negative parts of \<open>diff(1)\<close> (0 where the comparison is false) and \<open>emaup\<close>,
    \<open>emadn\<close> their exponentially weighted means with \<open>alpha = 1 / window\<close>, the value is
    100 where \<open>emadn = 0\<close> and \<open>100 - 100 / (1 + emaup / emadn)\<close> elsewhere; infinite values
    are then replaced by NaN, NaN is filled forward, and what is left is filled with 50.
\<close>

datatype py_error = IndexError

definition iloc_last :: "'a list \<Rightarrow> py_error + 'a" where
  "iloc_last xs = (if xs = [] then Inl IndexError else Inr (last xs))"

definition window_at :: "nat \<Rightarrow> 'a list \<Rightarrow> nat \<Rightarrow> 'a list" where
  "window_at w xs i = drop (Suc i - w) (take (Suc i) xs)"

fun valid :: "series \<Rightarrow> real list" where
  "valid [] = []"
| "valid (None # xs) = valid xs"
| "valid (Some v # xs) = v # valid xs"

definition mean :: "real list \<Rightarrow> real" where
  "mean vs = sum_list vs / real (length vs)"

definition sample_var :: "real list \<Rightarrow> real" where
  "sample_var vs = sum_list (map (\<lambda>v. (v - mean vs)\<^sup>2) vs) / real (length vs - 1)"

definition sample_std :: "real list \<Rightarrow> real" where
  "sample_std vs = sqrt (sample_var vs)"

definition rolling_mean :: "nat \<Rightarrow> nat \<Rightarrow> real list \<Rightarrow> series" where
  "rolling_mean w min_periods xs =
     map (\<lambda>i. let obs = window_at w xs i
              in if length obs \<ge> min_periods \<and> length obs > 0 then Some (mean obs) else None)
         [0..<length xs]"

definition rolling_std :: "nat \<Rightarrow> nat \<Rightarrow> series \<Rightarrow> series" where
  "rolling_std w min_periods xs =
     map (\<lambda>i. let obs = valid (window_at w xs i)
              in if length obs \<ge> min_periods \<and> length obs > 1 then Some (sample_std obs)
                 else None)
         [0..<length xs]"

fun ewm_from :: "real \<Rightarrow> real \<Rightarrow> real list \<Rightarrow> real list" where
  "ewm_from a y [] = []"
| "ewm_from a y (x # xs) = ((1 - a) * y + a * x) # ewm_from a ((1 - a) * y + a * x) xs"

definition ewm_mean :: "real \<Rightarrow> real list \<Rightarrow> real list" where
  "ewm_mean a xs = (case xs of [] \<Rightarrow> [] | x # rest \<Rightarrow> x # ewm_from a x rest)"

fun pct_from :: "real \<Rightarrow> real list \<Rightarrow> series" where
  "pct_from prev [] = []"
| "pct_from prev (x # xs) =
     (if prev = 0 then None else Some (x / prev - 1)) # pct_from x xs"

definition pct_change :: "real list \<Rightarrow> series" where
  "pct_change xs = (case xs of [] \<Rightarrow> [] | x # rest \<Rightarrow> None # pct_from x rest)"

fun diff_from :: "real \<Rightarrow> real list \<Rightarrow> series" where
  "diff_from prev [] = []"
| "diff_from prev (x # xs) = Some (x - prev) # diff_from x xs"

definition diff1 :: "real list \<Rightarrow> series" where
  "diff1 xs = (case xs of [] \<Rightarrow> [] | x # rest \<Rightarrow> None # diff_from x rest)"

definition up_direction :: "series \<Rightarrow> real list" where
  \<comment> \<open>\<open>diff.where(diff > 0, 0.0)\<close>\<close>
  "up_direction d = map (\<lambda>x. case x of None \<Rightarrow> 0 | Some v \<Rightarrow> if v > 0 then v else 0) d"

definition down_direction :: "series \<Rightarrow> real list" where
  \<comment> \<open>\<open>-diff.where(diff < 0, 0.0)\<close>\<close>
  "down_direction d =
     map (\<lambda>x. case x of None \<Rightarrow> 0 | Some v \<Rightarrow> - (if v < 0 then v else 0)) d"

fun ffill_from :: "pyfloat \<Rightarrow> series \<Rightarrow> series" where
  "ffill_from prev [] = []"
| "ffill_from prev (None # xs) = prev # ffill_from prev xs"
| "ffill_from prev (Some v # xs) = Some v # ffill_from (Some v) xs"

definition check_fillna :: "real \<Rightarrow> series \<Rightarrow> series" where
  "check_fillna val xs =
     map (\<lambda>x. case x of None \<Rightarrow> Some val | Some v \<Rightarrow> Some v) (ffill_from None xs)"

definition sma_indicator :: "nat \<Rightarrow> real list \<Rightarrow> series" where
  "sma_indicator w close = rolling_mean w 0 close"

definition ema_indicator :: "nat \<Rightarrow> real list \<Rightarrow> series" where
  "ema_indicator w close = map Some (ewm_mean (2 / (real w + 1)) close)"

definition emaup :: "nat \<Rightarrow> real list \<Rightarrow> real list" where
  "emaup w close = ewm_mean (1 / real w) (up_direction (diff1 close))"

definition emadn :: "nat \<Rightarrow> real list \<Rightarrow> real list" where
  "emadn w close = ewm_mean (1 / real w) (down_direction (diff1 close))"

definition rsi_point :: "real \<times> real \<Rightarrow> pyfloat" where
  \<comment> \<open>\<open>np.where(emadn == 0, 100, 100 - (100 / (1 + emaup / emadn)))\<close> at one position\<close>
  "rsi_point p =
     (case p of (u, d) \<Rightarrow>
        if d = 0 then Some 100
        else if 1 + u / d = 0 then None
        else Some (100 - 100 / (1 + u / d)))"

definition rsi :: "nat \<Rightarrow> real list \<Rightarrow> series" where
  "rsi w close = check_fillna 50 (map rsi_point (zip (emaup w close) (emadn w close)))"

subsection \<open>The indicator columns (lines 74 to 80)\<close>

record frame =
  SMA_short :: series
  SMA_long :: series
  EMA :: series
  RSI :: series
  Returns :: series
  Volatility :: series

definition indicators :: "window_config \<Rightarrow> real list \<Rightarrow> frame" where
  "indicators cfg close =
     \<lparr>SMA_short = sma_indicator (sma_short cfg) close,
      SMA_long = sma_indicator (sma_long cfg) close,
      EMA = ema_indicator (ema_win cfg) close,
      RSI = rsi (rsi_win cfg) close,
      Returns = pct_change close,
      Volatility = rolling_std (vol_win cfg) 1 (pct_change close)\<rparr>"

subsection \<open>The application (lines 50 to 186)\<close>

text \<open>
  A row of the price file. The columns \<open>High\<close> and \<open>Low\<close> are the fields \<open>HighP\<close> and
  \<open>LowP\<close>, since \<open>High\<close> and \<open>Low\<close> name volatility regimes. The figure is kept as the
  number of its rows and the list of its traces, which is where the four checkboxes of
  the sidebar are read.
\<close>

record bar =
  Date :: string
  Open :: real
  HighP :: real
  LowP :: real
  Close :: real
  Volume :: real

record toggles =
  show_sma :: bool
  show_ema :: bool
  show_rsi :: bool
  show_volume :: bool

datatype trace =
    Candlestick
  | VolumeBar "real list"
  | SmaLine nat series
  | EmaLine nat series
  | RsiLine nat series
  | HLine real

record figure =
  fig_rows :: nat
  fig_traces :: "trace list"

definition build_figure :: "toggles \<Rightarrow> window_config \<Rightarrow> bar list \<Rightarrow> frame \<Rightarrow> figure" where
  "build_figure t cfg df fr =
     \<lparr>fig_rows = (if show_rsi t then 2 else 1),
      fig_traces =
        [Candlestick]
        @ (if show_volume t then [VolumeBar (map Volume df)] else [])
        @ (if show_sma t
           then [SmaLine (sma_short cfg) (SMA_short fr), SmaLine (sma_long cfg) (SMA_long fr)]
           else [])
        @ (if show_ema t then [EmaLine (ema_win cfg) (EMA fr)] else [])
        @ (if show_rsi t then [RsiLine (rsi_win cfg) (RSI fr), HLine 70, HLine 30] else [])\<rparr>"

record snapshot =
  snap_vol_regime :: regime
  snap_trend_bias :: bias
  snap_rsi_val :: pyfloat
  snap_momentum :: momentum_state

record app_output =
  out_config :: window_config
  out_frame :: frame
  out_figure :: figure
  out_snapshot :: snapshot

definition app :: "toggles \<Rightarrow> bar list \<Rightarrow> py_error + app_output" where
  "app t df =
     (let data_len = int (length df);
          cfg = select_windows data_len;
          fr = indicators cfg (map Close df)
      in case iloc_last (Volatility fr) of
           Inl e \<Rightarrow> Inl e
         | Inr latest_vol \<Rightarrow>
             (case iloc_last (EMA fr) of
                Inl e \<Rightarrow> Inl e
              | Inr ema_last \<Rightarrow>
                  (case iloc_last (SMA_short fr) of
                     Inl e \<Rightarrow> Inl e
                   | Inr sma_last \<Rightarrow>
                       (case iloc_last (RSI fr) of
                          Inl e \<Rightarrow> Inl e
                        | Inr rsi_val \<Rightarrow>
                            Inr \<lparr>out_config = cfg,
                                 out_frame = fr,
                                 out_figure = build_figure t cfg df fr,
                                 out_snapshot =
                                   \<lparr>snap_vol_regime = vol_regime latest_vol,
                                    snap_trend_bias = trend_bias ema_last sma_last,
                                    snap_rsi_val = rsi_val,
                                    snap_momentum = momentum_of rsi_val\<rparr>\<rparr>))))"

text \<open>The four rows of \<open>data/sample_data.csv\<close> (lines 29 to 34).\<close>

definition sample_data :: "bar list" where
  "sample_data =
     [\<lparr>Date = ''2024-01-01'', Open = 42000, HighP = 42550, LowP = 41800, Close = 42300,
       Volume = 31250\<rparr>,
      \<lparr>Date = ''2024-01-02'', Open = 42300, HighP = 43000, LowP = 42100, Close = 42850,
       Volume = 34120\<rparr>,
      \<lparr>Date = ''2024-01-03'', Open = 42850, HighP = 43200, LowP = 42400, Close = 42600,
       Volume = 29840\<rparr>,
      \<lparr>Date = ''2024-01-04'', Open = 42600, HighP = 42750, LowP = 41950, Close = 42100,
       Volume = 35670\<rparr>]"

section \<open>Shapes of the computed columns\<close>

subsection \<open>Lengths\<close>


lemma length_rolling_mean: "length (rolling_mean w m xs) = length xs"
  by (simp add: rolling_mean_def)

lemma length_rolling_std: "length (rolling_std w m xs) = length xs"
  by (simp add: rolling_std_def)

lemma length_ewm_from: "length (ewm_from a y xs) = length xs"
  by (induction xs arbitrary: y) simp_all

lemma length_ewm_mean: "length (ewm_mean a xs) = length xs"
  by (cases xs) (simp_all add: ewm_mean_def length_ewm_from)

lemma length_pct_from: "length (pct_from p xs) = length xs"
  by (induction xs arbitrary: p) simp_all

lemma length_pct_change: "length (pct_change xs) = length xs"
  by (cases xs) (simp_all add: pct_change_def length_pct_from)

lemma length_diff_from: "length (diff_from p xs) = length xs"
  by (induction xs arbitrary: p) simp_all

lemma length_diff1: "length (diff1 xs) = length xs"
  by (cases xs) (simp_all add: diff1_def length_diff_from)

lemma length_ffill_from: "length (ffill_from p xs) = length xs"
  by (induction p xs rule: ffill_from.induct) simp_all

lemma length_check_fillna: "length (check_fillna v xs) = length xs"
  by (simp add: check_fillna_def length_ffill_from)

lemma length_emaup: "length (emaup w xs) = length xs"
  by (simp add: emaup_def length_ewm_mean up_direction_def length_diff1)

lemma length_emadn: "length (emadn w xs) = length xs"
  by (simp add: emadn_def length_ewm_mean down_direction_def length_diff1)

lemma length_rsi: "length (rsi w xs) = length xs"
  by (simp add: rsi_def length_check_fillna length_emaup length_emadn)

lemma length_sma: "length (sma_indicator w xs) = length xs"
  by (simp add: sma_indicator_def length_rolling_mean)

lemma length_ema: "length (ema_indicator w xs) = length xs"
  by (simp add: ema_indicator_def length_ewm_mean)

subsection \<open>Where the columns have a value\<close>

lemma sma_defined:
  assumes "i < length xs" and "0 < w"
  shows "sma_indicator w xs ! i = Some (mean (window_at w xs i))"
proof -
  have "length (window_at w xs i) = Suc i - (Suc i - w)"
    using assms by (simp add: window_at_def)
  with assms have "0 < length (window_at w xs i)" by simp
  with assms show ?thesis
    by (simp add: sma_indicator_def rolling_mean_def Let_def)
qed

lemma ema_defined: "i < length xs \<Longrightarrow> ema_indicator w xs ! i \<noteq> None"
  by (simp add: ema_indicator_def length_ewm_mean)

lemma check_fillna_defined: "i < length xs \<Longrightarrow> check_fillna v xs ! i \<noteq> None"
  by (simp add: check_fillna_def length_ffill_from split: option.splits)

lemma rsi_defined: "i < length xs \<Longrightarrow> rsi w xs ! i \<noteq> None"
  by (simp add: rsi_def check_fillna_defined length_emaup length_emadn)

lemma ffill_from_keeps: "i < length xs \<Longrightarrow> xs ! i = Some v \<Longrightarrow> ffill_from p xs ! i = Some v"
proof (induction p xs arbitrary: i rule: ffill_from.induct)
  case (1 prev)
  then show ?case by simp
next
  case (2 prev xs)
  then show ?case by (cases i) simp_all
next
  case (3 prev v xs)
  then show ?case by (cases i) simp_all
qed

lemma check_fillna_keeps: "i < length xs \<Longrightarrow> xs ! i = Some v \<Longrightarrow> check_fillna d xs ! i = Some v"
  by (simp add: check_fillna_def length_ffill_from ffill_from_keeps)

lemma rsi_no_loss:
  assumes "i < length xs" and "emadn w xs ! i = 0"
  shows "rsi w xs ! i = Some 100"
proof -
  let ?raw = "map rsi_point (zip (emaup w xs) (emadn w xs))"
  have len: "i < length ?raw" using assms by (simp add: length_emaup length_emadn)
  have "?raw ! i = rsi_point (emaup w xs ! i, emadn w xs ! i)"
    using assms by (simp add: length_emaup length_emadn)
  also have "\<dots> = Some 100" using assms by (simp add: rsi_point_def)
  finally have "?raw ! i = Some 100" .
  with len show ?thesis unfolding rsi_def by (rule check_fillna_keeps)
qed

lemma pct_from_nth:
  "i < length xs \<Longrightarrow>
     pct_from p xs ! i = (if (p # xs) ! i = 0 then None else Some (xs ! i / (p # xs) ! i - 1))"
proof (induction xs arbitrary: p i)
  case Nil
  then show ?case by simp
next
  case (Cons x xs)
  then show ?case by (cases i) simp_all
qed

lemma pct_change_0: "xs \<noteq> [] \<Longrightarrow> pct_change xs ! 0 = None"
  by (cases xs) (simp_all add: pct_change_def)

lemma pct_change_nth:
  assumes "0 < i" and "i < length xs" and "xs ! (i - 1) \<noteq> 0"
  shows "pct_change xs ! i = Some (xs ! i / xs ! (i - 1) - 1)"
proof -
  obtain x rest where xs: "xs = x # rest" using assms by (cases xs) auto
  obtain j where i: "i = Suc j" using assms by (cases i) auto
  from assms xs i have "j < length rest" by simp
  then show ?thesis using assms xs i by (simp add: pct_change_def pct_from_nth)
qed

subsection \<open>Observations of a rolling window\<close>

lemma valid_append: "valid (xs @ ys) = valid xs @ valid ys"
  by (induction xs rule: valid.induct) simp_all

lemma length_valid_le: "length (valid xs) \<le> length xs"
  by (induction xs rule: valid.induct) simp_all

lemma length_valid_drop: "length (valid (drop k xs)) \<le> length (valid xs)"
proof -
  have "valid xs = valid (take k xs) @ valid (drop k xs)"
    by (metis append_take_drop_id valid_append)
  then show ?thesis by simp
qed

lemma rolling_std_0: "xs \<noteq> [] \<Longrightarrow> xs ! 0 = None \<Longrightarrow> rolling_std w m xs ! 0 = None"
proof -
  assume a: "xs \<noteq> []" "xs ! 0 = None"
  then obtain rest where xs: "xs = None # rest" by (cases xs) auto
  have "length (valid (window_at w xs 0)) \<le> length (valid (take 1 xs))"
    unfolding window_at_def by (simp add: length_valid_drop)
  also have "\<dots> = 0" using xs by simp
  finally show ?thesis using a
    by (simp add: rolling_std_def Let_def upt_conv_Cons)
qed

lemma rolling_std_1: "1 < length xs \<Longrightarrow> xs ! 0 = None \<Longrightarrow> rolling_std w m xs ! 1 = None"
proof -
  assume a: "1 < length xs" "xs ! 0 = None"
  then obtain y rest where xs: "xs = None # y # rest"
    by (cases xs; cases "tl xs") auto
  have "length (valid (window_at w xs 1)) \<le> length (valid (take 2 xs))"
    unfolding window_at_def using length_valid_drop [of "Suc 1 - w" "take (Suc 1) xs"]
    by (simp add: numeral_2_eq_2)
  also have "\<dots> \<le> 1" using xs by (cases y) simp_all
  finally show ?thesis using a
    by (simp add: rolling_std_def Let_def)
qed

lemma rolling_std_defined:
  assumes "2 \<le> w" and "0 < i" and "i < length xs"
    and "xs ! (i - 1) = Some a" and "xs ! i = Some b" and "m \<le> 2"
  shows "rolling_std w m xs ! i = Some (sample_std (valid (window_at w xs i)))"
proof -
  obtain j where i: "i = Suc j" using assms by (cases i) auto
  have t: "take (Suc i) xs = take j xs @ [xs ! j, xs ! i]"
    using assms i by (simp add: take_Suc_conv_app_nth)
  have k: "Suc i - w \<le> length (take j xs)" using assms i by simp
  have "window_at w xs i = drop (Suc i - w) (take j xs) @ [Some a, Some b]"
    unfolding window_at_def t using k assms i by simp
  then have "valid (window_at w xs i) = valid (drop (Suc i - w) (take j xs)) @ [a, b]"
    by (simp add: valid_append)
  then have "2 \<le> length (valid (window_at w xs i))" by simp
  then show ?thesis using assms
    by (simp add: rolling_std_def Let_def)
qed

lemma pct_change_Nil_iff: "pct_change xs = [] \<longleftrightarrow> xs = []"
  by (cases xs) (simp_all add: pct_change_def)

subsection \<open>The application on an empty and on a non-empty frame\<close>

lemma select_windows_bounds:
  "0 < sma_short (select_windows n) \<and> 0 < sma_long (select_windows n) \<and>
   0 < ema_win (select_windows n) \<and> 0 < rsi_win (select_windows n) \<and>
   2 \<le> vol_win (select_windows n)"
  by (simp add: select_windows_def)

lemma app_empty: "app t [] = Inl IndexError"
  by (simp add: app_def Let_def iloc_last_def indicators_def pct_change_def rolling_std_def)

lemma app_nonempty:
  assumes "df \<noteq> []"
  shows "app t df =
     (let cfg = select_windows (int (length df)); fr = indicators cfg (map Close df)
      in Inr \<lparr>out_config = cfg, out_frame = fr, out_figure = build_figure t cfg df fr,
              out_snapshot =
                \<lparr>snap_vol_regime = vol_regime (last (Volatility fr)),
                 snap_trend_bias = trend_bias (last (EMA fr)) (last (SMA_short fr)),
                 snap_rsi_val = last (RSI fr),
                 snap_momentum = momentum_of (last (RSI fr))\<rparr>\<rparr>)"
proof -
  let ?cfg = "select_windows (int (length df))"
  let ?fr = "indicators ?cfg (map Close df)"
  have "length (Volatility ?fr) = length df" "length (EMA ?fr) = length df"
    "length (SMA_short ?fr) = length df" "length (RSI ?fr) = length df"
    by (simp_all add: indicators_def length_rolling_std length_pct_change length_ema
        length_sma length_rsi)
  with assms have "Volatility ?fr \<noteq> []" "EMA ?fr \<noteq> []" "SMA_short ?fr \<noteq> []" "RSI ?fr \<noteq> []"
    by auto
  then show ?thesis
    by (simp add: app_def Let_def iloc_last_def)
qed

section \<open>The claims\<close>

text \<open>
  C1. For every real latest volatility value \<open>v\<close> the regime is Low when \<open>v < 0.01\<close>,
  Medium when \<open>0.01 \<le> v < 0.025\<close> and High when \<open>v \<ge> 0.025\<close>; both lower bounds belong to
  the higher regime.
\<close>

theorem vol_regime_thresholds:
  "(v < 0.01 \<longrightarrow> vol_regime (Some v) = Low) \<and>
   (0.01 \<le> v \<and> v < 0.025 \<longrightarrow> vol_regime (Some v) = Medium) \<and>
   (0.025 \<le> v \<longrightarrow> vol_regime (Some v) = High)"
  by (simp add: vol_regime_def flt_def)

text \<open>C1 at the three boundary values 0.0099, 0.01 and 0.025.\<close>

theorem vol_regime_thresholds_witness:
  "vol_regime (Some 0.0099) = Low \<and> vol_regime (Some 0.01) = Medium \<and>
   vol_regime (Some 0.025) = High"
  using vol_regime_thresholds [of "0.0099"] vol_regime_thresholds [of "0.01"]
    vol_regime_thresholds [of "0.025"]
  by simp

text \<open>
  C2. For every integer bar count the window selection returns one of three presets and
  never fails: (20, 50, 20, 14, 20) in mode Production from 100 bars on, (14, 30, 14, 10, 14)
  in mode Reduced History from 60 to 99 bars, and (3, 5, 3, 3, 3) in mode Demo below 60.
\<close>

theorem select_windows_presets:
  "(100 \<le> n \<longrightarrow> select_windows n =
      \<lparr>sma_short = 20, sma_long = 50, ema_win = 20, rsi_win = 14, vol_win = 20,
       wmode = Production\<rparr>) \<and>
   (60 \<le> n \<and> n < 100 \<longrightarrow> select_windows n =
      \<lparr>sma_short = 14, sma_long = 30, ema_win = 14, rsi_win = 10, vol_win = 14,
       wmode = ReducedHistory\<rparr>) \<and>
   (n < 60 \<longrightarrow> select_windows n =
      \<lparr>sma_short = 3, sma_long = 5, ema_win = 3, rsi_win = 3, vol_win = 3,
       wmode = Demo\<rparr>)"
  by (simp add: select_windows_def)

text \<open>C2 at the bar counts 100, 99, 60, 59 and at a negative integer.\<close>

theorem select_windows_presets_witness:
  "wmode (select_windows 100) = Production \<and> sma_long (select_windows 100) = 50 \<and>
   wmode (select_windows 99) = ReducedHistory \<and> sma_long (select_windows 99) = 30 \<and>
   wmode (select_windows 60) = ReducedHistory \<and>
   wmode (select_windows 59) = Demo \<and> sma_long (select_windows 59) = 5 \<and>
   wmode (select_windows (- 7)) = Demo"
  using select_windows_presets [of 100] select_windows_presets [of 99]
    select_windows_presets [of 60] select_windows_presets [of 59]
    select_windows_presets [of "- 7"]
  by simp

text \<open>
  C3. On a non-empty frame the application reports the trend bias of the last bar, and
  that bias is Bullish exactly when the last entry of the \<open>EMA\<close> column is strictly greater
  than the last entry of the \<open>SMA_short\<close> column, and Bearish otherwise; equal last
  entries give Bearish.
\<close>

theorem trend_bias_strict:
  assumes "df \<noteq> []"
    and "fr = indicators (select_windows (int (length df))) (map Close df)"
  shows
    "last (EMA fr) = EMA fr ! (length df - 1) \<and>
     last (SMA_short fr) = SMA_short fr ! (length df - 1) \<and>
     map_sum id (\<lambda>out. snap_trend_bias (out_snapshot out)) (app t df) =
       Inr (if fgt (EMA fr ! (length df - 1)) (SMA_short fr ! (length df - 1))
            then Bullish else Bearish) \<and>
     (EMA fr ! (length df - 1) = Some e \<and> SMA_short fr ! (length df - 1) = Some s \<longrightarrow>
        (map_sum id (\<lambda>out. snap_trend_bias (out_snapshot out)) (app t df) = Inr Bullish
           \<longleftrightarrow> e > s) \<and>
        (map_sum id (\<lambda>out. snap_trend_bias (out_snapshot out)) (app t df) = Inr Bearish
           \<longleftrightarrow> \<not> e > s)) \<and>
     (EMA fr ! (length df - 1) = SMA_short fr ! (length df - 1) \<longrightarrow>
        map_sum id (\<lambda>out. snap_trend_bias (out_snapshot out)) (app t df) = Inr Bearish) \<and>
     (trend_bias (Some e) (Some s) = Bullish \<longleftrightarrow> e > s) \<and>
     (trend_bias (Some e) (Some s) = Bearish \<longleftrightarrow> \<not> e > s) \<and>
     trend_bias (Some s) (Some s) = Bearish"
proof -
  have le: "length (EMA fr) = length df" and ls: "length (SMA_short fr) = length df"
    by (simp_all add: assms(2) indicators_def length_ema length_sma)
  with assms(1) have ne: "EMA fr \<noteq> []" "SMA_short fr \<noteq> []" by auto
  have l1: "last (EMA fr) = EMA fr ! (length df - 1)"
    using ne le by (simp add: last_conv_nth)
  have l2: "last (SMA_short fr) = SMA_short fr ! (length df - 1)"
    using ne ls by (simp add: last_conv_nth)
  have run: "map_sum id (\<lambda>out. snap_trend_bias (out_snapshot out)) (app t df) =
       Inr (trend_bias (last (EMA fr)) (last (SMA_short fr)))"
    using assms(1) by (simp add: app_nonempty Let_def assms(2))
  have tie: "\<not> fgt x x" for x
    by (cases x) (simp_all add: fgt_def)
  show ?thesis
    unfolding run unfolding l1 l2 using l1 l2
    by (auto simp add: trend_bias_def fgt_def tie split: option.splits)
qed

text \<open>
  C3 on the first three rows of \<open>data/sample_data.csv\<close> (the EMA 42587.5 is above the SMA
  of about 42583.3: Bullish), on all four rows (42343.75 is below about 42516.7:
  Bearish) and on the first two rows (both are 42575: Bearish).
\<close>

theorem trend_bias_strict_witness:
  "take 3 sample_data \<noteq> [] \<and> sample_data \<noteq> [] \<and> take 2 sample_data \<noteq> [] \<and>
   map_sum id (\<lambda>out. snap_trend_bias (out_snapshot out))
     (app \<lparr>show_sma = True, show_ema = True, show_rsi = True, show_volume = True\<rparr>
       (take 3 sample_data)) = Inr Bullish \<and>
   map_sum id (\<lambda>out. snap_trend_bias (out_snapshot out))
     (app \<lparr>show_sma = True, show_ema = True, show_rsi = True, show_volume = True\<rparr>
       sample_data) = Inr Bearish \<and>
   map_sum id (\<lambda>out. snap_trend_bias (out_snapshot out))
     (app \<lparr>show_sma = True, show_ema = True, show_rsi = True, show_volume = True\<rparr>
       (take 2 sample_data)) = Inr Bearish"
proof -
  let ?t = "\<lparr>show_sma = True, show_ema = True, show_rsi = True, show_volume = True\<rparr>"
  let ?fr = "\<lambda>df. indicators (select_windows (int (length df))) (map Close df)"
  have h3: "take 3 sample_data \<noteq> []" and h4: "sample_data \<noteq> []"
    and h2: "take 2 sample_data \<noteq> []"
    by (simp_all add: sample_data_def)
  have e3: "EMA (?fr (take 3 sample_data)) ! (length (take 3 sample_data) - 1)
      = Some (85175 / 2)"
    by (simp add: sample_data_def indicators_def select_windows_def ema_indicator_def
        ewm_mean_def)
  have s3: "SMA_short (?fr (take 3 sample_data)) ! (length (take 3 sample_data) - 1)
      = Some (127750 / 3)"
    by (simp add: sample_data_def indicators_def select_windows_def sma_indicator_def
        rolling_mean_def window_at_def mean_def)
  have e4: "EMA (?fr sample_data) ! (length sample_data - 1) = Some (169375 / 4)"
    by (simp add: sample_data_def indicators_def select_windows_def ema_indicator_def
        ewm_mean_def)
  have s4: "SMA_short (?fr sample_data) ! (length sample_data - 1) = Some (127550 / 3)"
    by (simp add: sample_data_def indicators_def select_windows_def sma_indicator_def
        rolling_mean_def window_at_def mean_def)
  have e2: "EMA (?fr (take 2 sample_data)) ! (length (take 2 sample_data) - 1)
      = Some 42575"
    by (simp add: sample_data_def indicators_def select_windows_def ema_indicator_def
        ewm_mean_def)
  have s2: "SMA_short (?fr (take 2 sample_data)) ! (length (take 2 sample_data) - 1)
      = Some 42575"
    by (simp add: sample_data_def indicators_def select_windows_def sma_indicator_def
        rolling_mean_def window_at_def mean_def)
  have b3: "map_sum id (\<lambda>out. snap_trend_bias (out_snapshot out))
      (app ?t (take 3 sample_data)) = Inr Bullish"
    using trend_bias_strict [OF h3 refl, where e = "85175 / 2" and s = "127750 / 3" and t = ?t]
      e3 s3
    by (simp add: fgt_def)
  have b4: "map_sum id (\<lambda>out. snap_trend_bias (out_snapshot out))
      (app ?t sample_data) = Inr Bearish"
    using trend_bias_strict [OF h4 refl, where e = "169375 / 4" and s = "127550 / 3" and t = ?t]
      e4 s4
    by (simp add: fgt_def)
  have b2: "map_sum id (\<lambda>out. snap_trend_bias (out_snapshot out))
      (app ?t (take 2 sample_data)) = Inr Bearish"
    using trend_bias_strict [OF h2 refl, where e = 42575 and s = 42575 and t = ?t] e2 s2
    by (simp add: fgt_def)
  from h3 h4 h2 b3 b4 b2 show ?thesis by blast
qed

text \<open>
  C4. For every real momentum value \<open>m\<close> the momentum state is Overbought when \<open>m > 70\<close>,
  Oversold when \<open>m < 30\<close> and Neutral otherwise; 30 and 70 themselves are Neutral.
\<close>

theorem momentum_of_thresholds:
  "(m > 70 \<longrightarrow> momentum_of (Some m) = Overbought) \<and>
   (m < 30 \<longrightarrow> momentum_of (Some m) = Oversold) \<and>
   (30 \<le> m \<and> m \<le> 70 \<longrightarrow> momentum_of (Some m) = Neutral)"
  by (simp add: momentum_of_def fgt_def flt_def)

text \<open>C4 at 29.999, 30, 70 and 70.001.\<close>

theorem momentum_of_thresholds_witness:
  "momentum_of (Some 29.999) = Oversold \<and> momentum_of (Some 30) = Neutral \<and>
   momentum_of (Some 70) = Neutral \<and> momentum_of (Some 70.001) = Overbought"
  using momentum_of_thresholds [of "29.999"] momentum_of_thresholds [of 30]
    momentum_of_thresholds [of 70] momentum_of_thresholds [of "70.001"]
  by simp

text \<open>
  C5 (as the code has it). For a non-empty \<open>Close\<close> column whose values all lie between
  \<open>10\<^sup>-\<^sup>5\<^sup>0\<close> and \<open>10\<^sup>5\<^sup>0\<close> (a range in which no sum, quotient or square of the
  computation leaves the range of a float), the six computed columns have the length of
  the input; the two SMA columns, the EMA and the RSI have a value at every position;
  \<open>Returns\<close> has none at position 0 and one at every later position; \<open>Volatility\<close> has
  none at positions 0 and 1 and one at every position from 2 on. The sample standard
  deviation needs two returns, and the window ending at position 1 holds one.
\<close>

theorem indicators_defined:
  assumes "close \<noteq> []" and "\<forall>c\<in>set close. 1 / 10 ^ 50 \<le> c \<and> c \<le> 10 ^ 50"
    and "fr = indicators (select_windows (int (length close))) close"
  shows "length (SMA_short fr) = length close \<and> length (SMA_long fr) = length close \<and>
     length (EMA fr) = length close \<and> length (RSI fr) = length close \<and>
     length (Returns fr) = length close \<and> length (Volatility fr) = length close \<and>
     (\<forall>i<length close. SMA_short fr ! i \<noteq> None \<and> SMA_long fr ! i \<noteq> None \<and>
        EMA fr ! i \<noteq> None \<and> RSI fr ! i \<noteq> None) \<and>
     Returns fr ! 0 = None \<and> (\<forall>i. 0 < i \<and> i < length close \<longrightarrow> Returns fr ! i \<noteq> None) \<and>
     Volatility fr ! 0 = None \<and> (1 < length close \<longrightarrow> Volatility fr ! 1 = None) \<and>
     (\<forall>i. 1 < i \<and> i < length close \<longrightarrow> Volatility fr ! i \<noteq> None)"
proof -
  let ?cfg = "select_windows (int (length close))"
  note b = select_windows_bounds [of "int (length close)"]
  have len: "length (SMA_short fr) = length close" "length (SMA_long fr) = length close"
     "length (EMA fr) = length close" "length (RSI fr) = length close"
     "length (Returns fr) = length close" "length (Volatility fr) = length close"
    by (simp_all add: assms(3) indicators_def length_rolling_std length_pct_change length_ema
        length_sma length_rsi)
  have ind: "SMA_short fr ! i \<noteq> None \<and> SMA_long fr ! i \<noteq> None \<and>
        EMA fr ! i \<noteq> None \<and> RSI fr ! i \<noteq> None" if "i < length close" for i
    using that b by (simp add: assms(3) indicators_def sma_defined ema_defined rsi_defined)
  have nz: "close ! j \<noteq> 0" if "j < length close" for j
  proof -
    from that have "close ! j \<in> set close" by simp
    with assms(2) have "(1::real) / 10 ^ 50 \<le> close ! j" by blast
    moreover have "(0::real) < 1 / 10 ^ 50" by simp
    ultimately show ?thesis by linarith
  qed
  have ret: "\<exists>v. pct_change close ! i = Some v" if "0 < i" "i < length close" for i
    using that nz [of "i - 1"] by (simp add: pct_change_nth)
  have r0: "Returns fr ! 0 = None"
    using assms(1) by (simp add: assms(3) indicators_def pct_change_0)
  have v0: "Volatility fr ! 0 = None"
    using assms(1)
    by (simp add: assms(3) indicators_def rolling_std_0 pct_change_0 pct_change_Nil_iff)
  have v1: "Volatility fr ! 1 = None" if "1 < length close"
  proof -
    have "rolling_std (vol_win ?cfg) 1 (pct_change close) ! 1 = None"
      using that assms(1) by (intro rolling_std_1) (simp_all add: length_pct_change pct_change_0)
    then show ?thesis by (simp add: assms(3) indicators_def)
  qed
  have vi: "Volatility fr ! i \<noteq> None" if "1 < i" "i < length close" for i
  proof -
    from that have "\<exists>v. pct_change close ! (i - 1) = Some v"
      by (intro ret) simp_all
    moreover from that have "\<exists>v. pct_change close ! i = Some v"
      by (intro ret) simp_all
    ultimately obtain a c where a: "pct_change close ! (i - 1) = Some a"
      and c: "pct_change close ! i = Some c"
      by blast
    have "rolling_std (vol_win ?cfg) 1 (pct_change close) ! i \<noteq> None"
      using rolling_std_defined [of "vol_win ?cfg" i "pct_change close" a c 1] that a c b
      by (simp add: length_pct_change)
    then show ?thesis by (simp add: assms(3) indicators_def)
  qed
  have ri: "Returns fr ! i \<noteq> None" if "0 < i" "i < length close" for i
    using ret [OF that] by (auto simp add: assms(3) indicators_def)
  show ?thesis using len ind r0 v0 v1 vi ri by blast
qed

text \<open>C5 as amended, on the four closes of \<open>data/sample_data.csv\<close>.\<close>

theorem indicators_defined_witness:
  "[42300, 42850, 42600, 42100 :: real] \<noteq> [] \<and>
   1 / 10 ^ 50 \<le> (42300 :: real) \<and> (42300 :: real) \<le> 10 ^ 50 \<and>
   1 / 10 ^ 50 \<le> (42850 :: real) \<and> (42850 :: real) \<le> 10 ^ 50 \<and>
   1 / 10 ^ 50 \<le> (42600 :: real) \<and> (42600 :: real) \<le> 10 ^ 50 \<and>
   1 / 10 ^ 50 \<le> (42100 :: real) \<and> (42100 :: real) \<le> 10 ^ 50 \<and>
   length (Volatility (indicators
     (select_windows (int (length [42300, 42850, 42600, 42100 :: real])))
     [42300, 42850, 42600, 42100])) = 4 \<and>
   Volatility (indicators
     (select_windows (int (length [42300, 42850, 42600, 42100 :: real])))
     [42300, 42850, 42600, 42100]) ! 1 = None \<and>
   Volatility (indicators
     (select_windows (int (length [42300, 42850, 42600, 42100 :: real])))
     [42300, 42850, 42600, 42100]) ! 2 \<noteq> None \<and>
   Volatility (indicators
     (select_windows (int (length [42300, 42850, 42600, 42100 :: real])))
     [42300, 42850, 42600, 42100]) ! 3 \<noteq> None"
proof -
  have h1: "[42300, 42850, 42600, 42100 :: real] \<noteq> []" by simp
  have h2: "\<forall>c\<in>set [42300, 42850, 42600, 42100 :: real]. 1 / 10 ^ 50 \<le> c \<and> c \<le> 10 ^ 50"
    by simp
  show ?thesis using indicators_defined [OF h1 h2 refl] by simp
qed

text \<open>
  C5 as stated fails: on the four closes of \<open>data/sample_data.csv\<close> the volatility at
  position 1 has no value.
\<close>

theorem volatility_undefined_at_1:
  "(1::nat) \<le> 1 \<and> 1 < length [42300, 42850, 42600, 42100 :: real] \<and>
   Volatility (indicators
     (select_windows (int (length [42300, 42850, 42600, 42100 :: real])))
     [42300, 42850, 42600, 42100]) ! 1 = None"
  by (simp add: indicators_def select_windows_def pct_change_def rolling_std_def
      window_at_def)

text \<open>
  C6 (as the code has it). Every window of the configuration selected for a series is at
  most the length of the series exactly when the series has at least 5 bars; a shorter
  series still gets the Demo preset, whose long window is 5.
\<close>

theorem windows_within_length_iff:
  "(sma_short (select_windows (int (length close))) \<le> length close \<and>
    sma_long (select_windows (int (length close))) \<le> length close \<and>
    ema_win (select_windows (int (length close))) \<le> length close \<and>
    rsi_win (select_windows (int (length close))) \<le> length close \<and>
    vol_win (select_windows (int (length close))) \<le> length close)
   \<longleftrightarrow> 5 \<le> length close"
  by (auto simp add: select_windows_def)

text \<open>C6 as amended, on a series of five bars.\<close>

theorem windows_within_length_iff_witness:
  "sma_short (select_windows (int (length [42300, 42850, 42600, 42100, 42100 :: real]))) \<le> 5 \<and>
   sma_long (select_windows (int (length [42300, 42850, 42600, 42100, 42100 :: real]))) \<le> 5 \<and>
   ema_win (select_windows (int (length [42300, 42850, 42600, 42100, 42100 :: real]))) \<le> 5 \<and>
   rsi_win (select_windows (int (length [42300, 42850, 42600, 42100, 42100 :: real]))) \<le> 5 \<and>
   vol_win (select_windows (int (length [42300, 42850, 42600, 42100, 42100 :: real]))) \<le> 5"
  using windows_within_length_iff [of "[42300, 42850, 42600, 42100, 42100]"]
  by simp

text \<open>
  C6 as stated fails: the four closes of \<open>data/sample_data.csv\<close> select a long SMA window
  of 5.
\<close>

theorem demo_long_window_exceeds_sample:
  "\<not> sma_long (select_windows (int (length [42300, 42850, 42600, 42100 :: real])))
      \<le> length [42300, 42850, 42600, 42100 :: real]"
  by (simp add: select_windows_def)

text \<open>
  C7. The application fails exactly when the frame is empty, with the \<open>IndexError\<close> of
  \<open>iloc[-1]\<close> on the empty \<open>Volatility\<close> column (the failure the specification calls
  InsufficientData); the indicator columns of an empty frame are computed without a
  failure and are empty.
\<close>

theorem app_fails_iff_empty:
  "(app t df = Inl IndexError \<longleftrightarrow> df = []) \<and> (isl (app t df) \<longleftrightarrow> df = []) \<and>
   indicators (select_windows (int (length ([] :: bar list)))) (map Close []) =
     \<lparr>SMA_short = [], SMA_long = [], EMA = [], RSI = [], Returns = [], Volatility = []\<rparr>"
proof -
  have "df \<noteq> [] \<Longrightarrow> \<not> isl (app t df)"
    by (simp add: app_nonempty Let_def)
  moreover have "isl (app t [])" "app t [] = Inl IndexError"
    by (simp_all add: app_empty)
  moreover have "app t df = Inl IndexError \<Longrightarrow> isl (app t df)"
    by simp
  moreover have
    "indicators (select_windows (int (length ([] :: bar list)))) (map Close []) =
     \<lparr>SMA_short = [], SMA_long = [], EMA = [], RSI = [], Returns = [], Volatility = []\<rparr>"
    by (simp add: indicators_def sma_indicator_def rolling_mean_def ema_indicator_def
        ewm_mean_def rsi_def emaup_def emadn_def check_fillna_def pct_change_def rolling_std_def
        up_direction_def down_direction_def diff1_def)
  ultimately show ?thesis by blast
qed

text \<open>C7 on the empty frame and on the first row of \<open>data/sample_data.csv\<close>.\<close>

theorem app_fails_iff_empty_witness:
  "app \<lparr>show_sma = True, show_ema = True, show_rsi = True, show_volume = True\<rparr> []
     = Inl IndexError \<and>
   \<not> isl (app \<lparr>show_sma = True, show_ema = True, show_rsi = True, show_volume = True\<rparr>
     [\<lparr>Date = ''2024-01-01'', Open = 42000, HighP = 42550, LowP = 41800, Close = 42300,
       Volume = 31250\<rparr>])"
  using app_fails_iff_empty
    [of "\<lparr>show_sma = True, show_ema = True, show_rsi = True, show_volume = True\<rparr>" "[]"]
    app_fails_iff_empty
    [of "\<lparr>show_sma = True, show_ema = True, show_rsi = True, show_volume = True\<rparr>"
      "[\<lparr>Date = ''2024-01-01'', Open = 42000, HighP = 42550, LowP = 41800, Close = 42300,
        Volume = 31250\<rparr>]"]
  by simp

text \<open>
  C8 (as the code has it). At a bar where the average upward and the average downward
  movement are both zero, the RSI is 100; and at every bar the RSI has a value, so the
  division never leaves it undefined.
\<close>

theorem rsi_no_movement_is_100:
  assumes "i < length close"
  shows "(emaup w close ! i = 0 \<and> emadn w close ! i = 0 \<longrightarrow> rsi w close ! i = Some 100) \<and>
     rsi w close ! i \<noteq> None"
  using assms by (simp add: rsi_no_loss rsi_defined)

text \<open>C8 as amended, on three equal closes with the Demo window.\<close>

theorem rsi_no_movement_is_100_witness:
  "(2::nat) < length [42300, 42300, 42300 :: real] \<and>
   emaup 3 [42300, 42300, 42300] ! 2 = 0 \<and> emadn 3 [42300, 42300, 42300] ! 2 = 0 \<and>
   rsi 3 [42300, 42300, 42300] ! 2 = Some 100"
proof -
  have h: "(2::nat) < length [42300, 42300, 42300 :: real]" by simp
  have z: "emaup 3 [42300, 42300, 42300] ! 2 = 0 \<and> emadn 3 [42300, 42300, 42300] ! 2 = 0"
    by (simp add: emaup_def emadn_def ewm_mean_def diff1_def up_direction_def
        down_direction_def)
  show ?thesis using rsi_no_movement_is_100 [OF h, of 3] z by simp
qed

text \<open>
  C8 as stated fails: on three equal closes both averages are zero at the last bar and
  the RSI column of the application is not 50 there.
\<close>

theorem rsi_flat_not_50:
  "emaup (rsi_win (select_windows (int (length [42300, 42300, 42300 :: real]))))
     [42300, 42300, 42300] ! 2 = 0 \<and>
   emadn (rsi_win (select_windows (int (length [42300, 42300, 42300 :: real]))))
     [42300, 42300, 42300] ! 2 = 0 \<and>
   RSI (indicators (select_windows (int (length [42300, 42300, 42300 :: real])))
     [42300, 42300, 42300]) ! 2 \<noteq> Some 50"
  by (simp add: indicators_def select_windows_def rsi_def emaup_def emadn_def ewm_mean_def
      diff1_def up_direction_def down_direction_def rsi_point_def check_fillna_def)

text \<open>
  C9. Two runs on the same frame that differ only in the four display toggles end the
  same way and, when they succeed, have the same window configuration, the same computed
  columns and the same classifications.
\<close>

theorem toggles_do_not_change_values:
  "map_sum id (\<lambda>out. (out_config out, out_frame out, out_snapshot out)) (app t1 df) =
   map_sum id (\<lambda>out. (out_config out, out_frame out, out_snapshot out)) (app t2 df)"
  by (cases "df = []") (simp_all add: app_empty app_nonempty Let_def)

text \<open>
  C10. On a frame of exactly one bar the only volatility value is undefined, and the
  application does not fail: it assigns the regime High.
\<close>

theorem single_bar_regime_high:
  assumes "length df = 1"
  shows "Volatility (indicators (select_windows (int (length df))) (map Close df)) = [None] \<and>
     iloc_last (Volatility (indicators (select_windows (int (length df))) (map Close df)))
       = Inr None \<and>
     vol_regime None = High \<and>
     map_sum id (\<lambda>out. snap_vol_regime (out_snapshot out)) (app t df) = Inr High"
proof -
  let ?fr = "indicators (select_windows (int (length df))) (map Close df)"
  have l: "length (Volatility ?fr) = 1"
    using assms by (simp add: indicators_def length_rolling_std length_pct_change)
  from assms have ne: "map Close df \<noteq> []" by auto
  have "Volatility ?fr ! 0 = None"
    using ne by (simp add: indicators_def rolling_std_0 pct_change_0 pct_change_Nil_iff)
  with l have v: "Volatility ?fr = [None]"
    by (cases "Volatility ?fr") auto
  have h: "vol_regime None = High"
    by (simp add: vol_regime_def flt_def)
  from ne have "df \<noteq> []" by auto
  then have "map_sum id (\<lambda>out. snap_vol_regime (out_snapshot out)) (app t df) = Inr High"
    using v h by (simp add: app_nonempty Let_def)
  with v h show ?thesis by (simp add: iloc_last_def)
qed

text \<open>C10 on the first row of \<open>data/sample_data.csv\<close>.\<close>

theorem single_bar_regime_high_witness:
  "length [\<lparr>Date = ''2024-01-01'', Open = 42000, HighP = 42550, LowP = 41800, Close = 42300,
       Volume = 31250\<rparr>] = 1 \<and>
   map_sum id (\<lambda>out. snap_vol_regime (out_snapshot out))
     (app \<lparr>show_sma = True, show_ema = True, show_rsi = True, show_volume = True\<rparr>
       [\<lparr>Date = ''2024-01-01'', Open = 42000, HighP = 42550, LowP = 41800, Close = 42300,
         Volume = 31250\<rparr>]) = Inr High"
proof -
  have h: "length [\<lparr>Date = ''2024-01-01'', Open = 42000, HighP = 42550, LowP = 41800,
      Close = 42300, Volume = 31250\<rparr>] = 1"
    by simp
  show ?thesis
    using single_bar_regime_high [OF h,
      of "\<lparr>show_sma = True, show_ema = True, show_rsi = True, show_volume = True\<rparr>"]
    by simp
qed

end
